theory Spec2Isabelle
  imports Main
begin

section \<open>The durable store (shared/database/database.go, shared/types)\<close>

text \<open>
  The three tables the indexing pipeline uses are modelled as lists of typed rows.
  Go's \<^verbatim>\<open>*big.Int\<close> block numbers are unbounded integers; \<^verbatim>\<open>time.Time\<close> stamps are
  readings of a logical clock kept in the store; primary keys come from one sequence,
  \<open>next_id\<close>.  Every row type comes with the Go types of the struct's fields and with
  the list of columns that gorm derives from them.

  The store is reached through gorm, which parses the model struct before it builds a
  statement.  A field of a struct type that is neither \<^verbatim>\<open>time.Time\<close> nor a
  \<^verbatim>\<open>Valuer\<close>/\<^verbatim>\<open>Scanner\<close> is taken for a relation, and parsing fails when no foreign
  key is found for it.  \<^verbatim>\<open>BlockNumber *big.Int\<close> is such a field, and the repository
  declares no \<^verbatim>\<open>Valuer\<close>, \<^verbatim>\<open>Scanner\<close>, serializer or column type for it.  So every
  statement on \<^verbatim>\<open>IndexedEvent\<close> or \<^verbatim>\<open>LastProcessedBlock\<close> returns gorm's error, which is
  not \<^verbatim>\<open>ErrRecordNotFound\<close>, before anything is sent to the engine.  A statement on a
  model that parses is sent; the engine rejects it when it names a column the table does
  not have, and changes nothing then.
\<close>

datatype sqlval = SInt int | SText string | SBool bool

datatype db_error =
    ErrRecordNotFound
  | ErrInvalidField string
  | ErrUndefinedColumn string
  | ErrConnection

datatype gotype = GoUint | GoString | GoBool | GoTime | GoBigIntPtr

record IndexedEvent =
  ie_ID :: nat
  ie_BlockNumber :: int
  ie_TxHash :: string
  ie_EventName :: string
  ie_Contract :: string
  ie_From :: string
  ie_To :: string
  ie_TokenID :: string
  ie_Value :: string
  ie_Timestamp :: nat
  ie_CreatedAt :: nat
  ie_UpdatedAt :: nat

record LastProcessedBlock =
  lpb_ID :: nat
  lpb_BlockNumber :: int
  lpb_BlockHash :: string
  lpb_ChainID :: string
  lpb_CreatedAt :: nat
  lpb_UpdatedAt :: nat

record ProcessedEvent =
  pe_ID :: nat
  pe_EventKey :: string
  pe_Processed :: bool
  pe_Timestamp :: nat

definition IndexedEvent_fields :: "(string \<times> gotype) list" where
  "IndexedEvent_fields =
     [(''ID'', GoUint), (''BlockNumber'', GoBigIntPtr), (''TxHash'', GoString),
      (''EventName'', GoString), (''Contract'', GoString), (''From'', GoString),
      (''To'', GoString), (''TokenID'', GoString), (''Value'', GoString),
      (''Timestamp'', GoTime), (''CreatedAt'', GoTime), (''UpdatedAt'', GoTime)]"

definition LastProcessedBlock_fields :: "(string \<times> gotype) list" where
  "LastProcessedBlock_fields =
     [(''ID'', GoUint), (''BlockNumber'', GoBigIntPtr), (''BlockHash'', GoString),
      (''ChainID'', GoString), (''CreatedAt'', GoTime), (''UpdatedAt'', GoTime)]"

definition ProcessedEvent_fields :: "(string \<times> gotype) list" where
  "ProcessedEvent_fields =
     [(''ID'', GoUint), (''EventKey'', GoString), (''Processed'', GoBool),
      (''Timestamp'', GoTime)]"

text \<open>gorm's parse of a model: the error names the first field it cannot map.\<close>

definition parse_schema :: "(string \<times> gotype) list \<Rightarrow> db_error option" where
  "parse_schema fs =
     (case find (\<lambda>f. snd f = GoBigIntPtr) fs of
        None \<Rightarrow> None
      | Some f \<Rightarrow> Some (ErrInvalidField (fst f)))"

definition IndexedEvent_columns :: "(string \<times> (IndexedEvent \<Rightarrow> sqlval)) list" where
  "IndexedEvent_columns =
     [(''id'', \<lambda>e. SInt (int (ie_ID e))),
      (''block_number'', \<lambda>e. SInt (ie_BlockNumber e)),
      (''tx_hash'', \<lambda>e. SText (ie_TxHash e)),
      (''event_name'', \<lambda>e. SText (ie_EventName e)),
      (''contract'', \<lambda>e. SText (ie_Contract e)),
      (''from'', \<lambda>e. SText (ie_From e)),
      (''to'', \<lambda>e. SText (ie_To e)),
      (''token_id'', \<lambda>e. SText (ie_TokenID e)),
      (''value'', \<lambda>e. SText (ie_Value e)),
      (''timestamp'', \<lambda>e. SInt (int (ie_Timestamp e))),
      (''created_at'', \<lambda>e. SInt (int (ie_CreatedAt e))),
      (''updated_at'', \<lambda>e. SInt (int (ie_UpdatedAt e)))]"

definition ProcessedEvent_columns :: "(string \<times> (ProcessedEvent \<Rightarrow> sqlval)) list" where
  "ProcessedEvent_columns =
     [(''id'', \<lambda>p. SInt (int (pe_ID p))),
      (''event_key'', \<lambda>p. SText (pe_EventKey p)),
      (''processed'', \<lambda>p. SBool (pe_Processed p)),
      (''timestamp'', \<lambda>p. SInt (int (pe_Timestamp p)))]"

fun sql_ge :: "sqlval \<Rightarrow> int \<Rightarrow> bool" where
  "sql_ge (SInt v) n = (n \<le> v)"
| "sql_ge (SText s) n = False"
| "sql_ge (SBool b) n = False"

text \<open>\<^verbatim>\<open>DB.Where("<col> >= ?", n).Delete(&T{})\<close> on the rows of table \<open>T\<close>.\<close>

definition delete_where_ge ::
  "(string \<times> ('r \<Rightarrow> sqlval)) list \<Rightarrow> string \<Rightarrow> int \<Rightarrow> 'r list \<Rightarrow> db_error + 'r list" where
  "delete_where_ge cols c n rows =
     (case map_of cols c of
        None \<Rightarrow> Inl (ErrUndefinedColumn c)
      | Some f \<Rightarrow> Inr (filter (\<lambda>r. \<not> sql_ge (f r) n) rows))"

record db =
  online :: bool
  events :: "IndexedEvent list"
  last_processed_blocks :: "LastProcessedBlock list"
  processed_events :: "ProcessedEvent list"
  next_id :: nat
  clock :: nat

text \<open>\<^verbatim>\<open>First\<close> returns the matching row with the smallest primary key.\<close>

fun first_by_id :: "('r \<Rightarrow> nat) \<Rightarrow> 'r list \<Rightarrow> 'r option" where
  "first_by_id idf [] = None"
| "first_by_id idf (r # rs) =
     (case first_by_id idf rs of
        None \<Rightarrow> Some r
      | Some b \<Rightarrow> if idf b < idf r then Some b else Some r)"

text \<open>\<^verbatim>\<open>Order("created_at DESC").First\<close>: the newest row, the smallest key among equals.\<close>

fun newest :: "LastProcessedBlock list \<Rightarrow> LastProcessedBlock option" where
  "newest [] = None"
| "newest (r # rs) =
     (case newest rs of
        None \<Rightarrow> Some r
      | Some b \<Rightarrow>
          if lpb_CreatedAt r < lpb_CreatedAt b
             \<or> (lpb_CreatedAt b = lpb_CreatedAt r \<and> lpb_ID b < lpb_ID r)
          then Some b else Some r)"

definition chain_row :: "db \<Rightarrow> LastProcessedBlock option" where
  "chain_row d =
     first_by_id lpb_ID (filter (\<lambda>r. lpb_ChainID r = ''ethereum_mainnet'') (last_processed_blocks d))"

definition Database_GetLastProcessedBlock :: "db \<Rightarrow> db_error + int" where
  "Database_GetLastProcessedBlock d =
     (case parse_schema LastProcessedBlock_fields of
        Some err \<Rightarrow> Inl err
      | None \<Rightarrow>
          if \<not> online d then Inl ErrConnection
          else case newest (last_processed_blocks d) of
                 None \<Rightarrow> Inr 0
               | Some r \<Rightarrow> Inr (lpb_BlockNumber r))"


text \<open>\<^verbatim>\<open>DB.Save(&existing)\<close>: every field of the row with that primary key is rewritten.\<close>

definition save_row :: "LastProcessedBlock \<Rightarrow> db \<Rightarrow> db" where
  "save_row row d =
     d\<lparr>last_processed_blocks :=
          map (\<lambda>r. if lpb_ID r = lpb_ID row then row\<lparr>lpb_UpdatedAt := clock d\<rparr> else r)
              (last_processed_blocks d),
       clock := Suc (clock d)\<rparr>"

text \<open>\<^verbatim>\<open>DB.Create(row)\<close>: a fresh key and fresh time stamps.\<close>

definition create_row :: "int \<Rightarrow> string \<Rightarrow> string \<Rightarrow> db \<Rightarrow> db" where
  "create_row blockNum blockHash chainID d =
     d\<lparr>last_processed_blocks :=
          last_processed_blocks d @
            [\<lparr>lpb_ID = next_id d, lpb_BlockNumber = blockNum, lpb_BlockHash = blockHash,
              lpb_ChainID = chainID, lpb_CreatedAt = clock d, lpb_UpdatedAt = clock d\<rparr>],
       next_id := Suc (next_id d),
       clock := Suc (clock d)\<rparr>"

definition Database_SaveLastProcessedBlock :: "db \<Rightarrow> int \<Rightarrow> db_error option \<times> db" where
  "Database_SaveLastProcessedBlock d blockNum =
     (case parse_schema LastProcessedBlock_fields of
        Some err \<Rightarrow> (Some err, d)
      | None \<Rightarrow>
          if \<not> online d then (Some ErrConnection, d)
          else case chain_row d of
                 Some existing \<Rightarrow> (None, save_row (existing\<lparr>lpb_BlockNumber := blockNum\<rparr>) d)
               | None \<Rightarrow> (None, create_row blockNum [] ''ethereum_mainnet'' d))"

definition UpdateLastProcessedBlockWithHash :: "db \<Rightarrow> int \<Rightarrow> string \<Rightarrow> db_error option \<times> db" where
  "UpdateLastProcessedBlockWithHash d blockNum blockHash =
     (case parse_schema LastProcessedBlock_fields of
        Some err \<Rightarrow> (Some err, d)
      | None \<Rightarrow>
          if \<not> online d then (Some ErrConnection, d)
          else case chain_row d of
                 Some existing \<Rightarrow>
                   (None,
                    save_row (existing\<lparr>lpb_BlockNumber := blockNum, lpb_BlockHash := blockHash\<rparr>) d)
               | None \<Rightarrow> (None, create_row blockNum blockHash ''ethereum_mainnet'' d))"

definition DeleteEventsFromBlock :: "db \<Rightarrow> int \<Rightarrow> db_error option \<times> db" where
  "DeleteEventsFromBlock d blockNumber =
     (case parse_schema IndexedEvent_fields of
        Some err \<Rightarrow> (Some err, d)
      | None \<Rightarrow>
          if \<not> online d then (Some ErrConnection, d)
          else case delete_where_ge IndexedEvent_columns ''block_number'' blockNumber (events d) of
                 Inl e \<Rightarrow> (Some e, d)
               | Inr rows \<Rightarrow> (None, d\<lparr>events := rows\<rparr>))"

definition DeleteProcessedEventsFromBlock :: "db \<Rightarrow> int \<Rightarrow> db_error option \<times> db" where
  "DeleteProcessedEventsFromBlock d blockNumber =
     (if \<not> online d then (Some ErrConnection, d)
      else case delete_where_ge ProcessedEvent_columns ''block_number'' blockNumber
                  (processed_events d) of
             Inl e \<Rightarrow> (Some e, d)
           | Inr rows \<Rightarrow> (None, d\<lparr>processed_events := rows\<rparr>))"

section \<open>The reorg handler\<close>

datatype rollback_error =
    FailedToDeleteEvents int db_error
  | FailedToDeleteProcessedEvents int db_error
  | FailedToUpdateLastProcessedBlock db_error



definition safeBlock_of :: "int \<Rightarrow> int \<Rightarrow> int" where
  "safeBlock_of depth currentBlock =
     (let safeBlock = currentBlock - depth in if safeBlock < 0 then 0 else safeBlock)"

definition rollbackToBlock :: "db \<Rightarrow> int \<Rightarrow> rollback_error option \<times> db" where
  "rollbackToBlock d blockNumber =
     (case DeleteEventsFromBlock d blockNumber of
        (Some e, d1) \<Rightarrow> (Some (FailedToDeleteEvents blockNumber e), d1)
      | (None, d1) \<Rightarrow>
          (case DeleteProcessedEventsFromBlock d1 blockNumber of
             (Some e, d2) \<Rightarrow> (Some (FailedToDeleteProcessedEvents blockNumber e), d2)
           | (None, d2) \<Rightarrow>
               (let prevBlock = blockNumber - 1 in
                case Database_SaveLastProcessedBlock d2 prevBlock of
                  (Some e, d3) \<Rightarrow> (Some (FailedToUpdateLastProcessedBlock e), d3)
                | (None, d3) \<Rightarrow> (None, d3))))"





section \<open>Checkpoint, resume and replay\<close>

text \<open>
  \<^verbatim>\<open>ResumeService\<close> holds a pointer to the store and the cached checkpoint \<^verbatim>\<open>lastBlock\<close>
  (\<^verbatim>\<open>nil\<close> is \<open>None\<close>); the mutex makes each method atomic.
\<close>

record ResumeService =
  rs_db :: db
  lastBlock :: "int option"

definition GetLastProcessedBlock :: "ResumeService \<Rightarrow> (db_error + int) \<times> ResumeService" where
  "GetLastProcessedBlock rs =
     (case lastBlock rs of
        Some cached \<Rightarrow> (Inr cached, rs)
      | None \<Rightarrow>
          (case Database_GetLastProcessedBlock (rs_db rs) of
             Inl err \<Rightarrow> (Inl err, rs)
           | Inr blockNum \<Rightarrow> (Inr blockNum, rs\<lparr>lastBlock := Some blockNum\<rparr>)))"











section \<open>The cache and the retry helper\<close>

text \<open>
  The cache holds JSON documents under string keys; \<^verbatim>\<open>Get\<close> fails when the key is absent,
  when the cache cannot be reached, or when the document does not unmarshal into the
  destination.  Expiry is left out: no entry is dropped during a run.
\<close>

datatype cval = CBool bool | CEvent IndexedEvent | CEvents "IndexedEvent list"

datatype cache_error = CacheNil | CacheUnavailable | UnmarshalError

record cache =
  cache_up :: bool
  entries :: "(string \<times> cval) list"

definition Cache_Get :: "cache \<Rightarrow> string \<Rightarrow> cache_error + cval" where
  "Cache_Get c key =
     (if \<not> cache_up c then Inl CacheUnavailable
      else case map_of (entries c) key of None \<Rightarrow> Inl CacheNil | Some v \<Rightarrow> Inr v)"

definition Cache_Get_bool :: "cache \<Rightarrow> string \<Rightarrow> cache_error + bool" where
  "Cache_Get_bool c key =
     (case Cache_Get c key of
        Inl e \<Rightarrow> Inl e
      | Inr (CBool b) \<Rightarrow> Inr b
      | Inr _ \<Rightarrow> Inl UnmarshalError)"

definition Cache_Get_events :: "cache \<Rightarrow> string \<Rightarrow> cache_error + IndexedEvent list" where
  "Cache_Get_events c key =
     (case Cache_Get c key of
        Inl e \<Rightarrow> Inl e
      | Inr (CEvents evs) \<Rightarrow> Inr evs
      | Inr _ \<Rightarrow> Inl UnmarshalError)"

definition Cache_Set :: "cache \<Rightarrow> string \<Rightarrow> cval \<Rightarrow> cache_error + cache" where
  "Cache_Set c key v =
     (if \<not> cache_up c then Inl CacheUnavailable
      else Inr (c\<lparr>entries := (key, v) # entries c\<rparr>))"

text \<open>
  \<^verbatim>\<open>utils.RetryWithBackoff(fn, nil)\<close> uses the default configuration, \<^verbatim>\<open>MaxRetries = 3\<close>:
  up to four attempts, the last error returned.
\<close>

fun retry_loop :: "nat \<Rightarrow> (unit \<Rightarrow> 'e + 'a) \<Rightarrow> 'e + 'a" where
  "retry_loop 0 fn = fn ()"
| "retry_loop (Suc k) fn = (case fn () of Inr v \<Rightarrow> Inr v | Inl e \<Rightarrow> retry_loop k fn)"

definition RetryWithBackoff :: "(unit \<Rightarrow> 'e + 'a) \<Rightarrow> 'e + 'a" where
  "RetryWithBackoff fn = retry_loop 3 fn"

section \<open>Decimal rendering of \<^verbatim>\<open>*big.Int\<close>\<close>

definition digit_char :: "nat \<Rightarrow> char" where
  "digit_char n = ''0123456789'' ! n"

function nat_to_dec :: "nat \<Rightarrow> string" where
  "nat_to_dec n = (if n < 10 then [digit_char n] else nat_to_dec (n div 10) @ [digit_char (n mod 10)])"
  by pat_completeness auto
termination
  by (relation "measure id") auto

declare nat_to_dec.simps [simp del]

definition big_String :: "int \<Rightarrow> string" where
  "big_String i = (if i < 0 then CHR ''-'' # nat_to_dec (nat (- i)) else nat_to_dec (nat i))"

text \<open>The verb \<^verbatim>\<open>%s\<close> applied to a \<^verbatim>\<open>*big.Int\<close>, which may be \<^verbatim>\<open>nil\<close>.\<close>

definition fmt_big :: "int option \<Rightarrow> string" where
  "fmt_big x = (case x of None \<Rightarrow> ''<nil>'' | Some i \<Rightarrow> big_String i)"

section \<open>The idempotency service\<close>

definition EventExists :: "db \<Rightarrow> string \<Rightarrow> db_error + bool" where
  "EventExists d eventKey =
     (if \<not> online d then Inl ErrConnection
      else Inr (0 < length (filter (\<lambda>p. pe_EventKey p = eventKey) (processed_events d))))"

text \<open>
  \<^verbatim>\<open>Clauses(OnConflict{DoNothing: true}).Create\<close> on the marker table, whose \<^verbatim>\<open>event_key\<close>
  column is unique: a second insert of the same key changes nothing.
\<close>

definition MarkEventAsProcessed :: "db \<Rightarrow> string \<Rightarrow> db_error option \<times> db" where
  "MarkEventAsProcessed d eventKey =
     (if \<not> online d then (Some ErrConnection, d)
      else if eventKey \<in> set (map pe_EventKey (processed_events d))
              \<or> next_id d \<in> set (map pe_ID (processed_events d))
      then (None, d\<lparr>next_id := Suc (next_id d)\<rparr>)
      else (None, d\<lparr>processed_events :=
                       processed_events d @
                         [\<lparr>pe_ID = next_id d, pe_EventKey = eventKey, pe_Processed = True,
                           pe_Timestamp = clock d\<rparr>],
                    next_id := Suc (next_id d)\<rparr>))"

definition IsProcessed :: "cache \<Rightarrow> db \<Rightarrow> string \<Rightarrow> (db_error + bool) \<times> cache" where
  "IsProcessed c d eventKey =
     (case Cache_Get_bool c (''processed:'' @ eventKey) of
        Inr exists \<Rightarrow> (Inr exists, c)
      | Inl _ \<Rightarrow>
          (case EventExists d eventKey of
             Inl err \<Rightarrow> (Inl err, c)
           | Inr exists \<Rightarrow>
               if exists then
                 (case Cache_Set c (''processed:'' @ eventKey) (CBool True) of
                    Inl _ \<Rightarrow> (Inr exists, c)
                  | Inr c' \<Rightarrow> (Inr exists, c'))
               else (Inr exists, c)))"

datatype mark_error = MarkDb db_error | MarkCache cache_error

definition MarkProcessed :: "cache \<Rightarrow> db \<Rightarrow> string \<Rightarrow> mark_error option \<times> cache \<times> db" where
  "MarkProcessed c d eventKey =
     (case MarkEventAsProcessed d eventKey of
        (Some err, d') \<Rightarrow> (Some (MarkDb err), c, d')
      | (None, d') \<Rightarrow>
          (case Cache_Set c (''processed:'' @ eventKey) (CBool True) of
             Inl err \<Rightarrow> (Some (MarkCache err), c, d')
           | Inr c' \<Rightarrow> (None, c', d')))"

section \<open>The batch processor\<close>

text \<open>
  \<^verbatim>\<open>eventsChan\<close> is a FIFO of capacity \<^verbatim>\<open>batchSize*10\<close>, \<^verbatim>\<open>flushChan\<close> has capacity one,
  \<open>cancelled\<close> says that \<^verbatim>\<open>cancel()\<close> was called, \<open>pending\<close> is the local slice \<^verbatim>\<open>events\<close> of
  the goroutine \<^verbatim>\<open>processBatches\<close>, and \<open>running\<close> says that this goroutine has not returned.
  The model is for a positive batch size, where the channel is buffered.
\<close>

record BatchProcessor =
  batchSize :: int
  eventsChan :: "IndexedEvent list"
  flushChan :: bool
  cancelled :: bool
  pending :: "IndexedEvent list"
  running :: bool

definition NewBatchProcessor :: "int \<Rightarrow> BatchProcessor" where
  "NewBatchProcessor n =
     \<lparr>batchSize = n, eventsChan = [], flushChan = False, cancelled = False,
      pending = [], running = True\<rparr>"

text \<open>
  One row of a bulk insert with \<^verbatim>\<open>OnConflict{DoNothing: true}\<close>.  The only unique column
  of the events table is the primary key; an event whose \<^verbatim>\<open>ID\<close> is zero takes the next
  value of the sequence.
\<close>

definition insert_ignore :: "db \<Rightarrow> IndexedEvent \<Rightarrow> db" where
  "insert_ignore d e =
     (if ie_ID e = 0 then
        (if next_id d \<in> set (map ie_ID (events d)) then d\<lparr>next_id := Suc (next_id d)\<rparr>
         else d\<lparr>events := events d @ [e\<lparr>ie_ID := next_id d\<rparr>], next_id := Suc (next_id d)\<rparr>)
      else
        (if ie_ID e \<in> set (map ie_ID (events d)) then d
         else d\<lparr>events := events d @ [e]\<rparr>))"

text \<open>
  \<^verbatim>\<open>flushBatch\<close>: \<^verbatim>\<open>CreateInBatches\<close> on \<^verbatim>\<open>IndexedEvent\<close> rows; whatever error the bulk
  insert returns is dropped and the store is as the insert left it.
\<close>

definition flushBatch :: "db \<Rightarrow> IndexedEvent list \<Rightarrow> db" where
  "flushBatch d evs =
     (if evs = [] then d
      else case parse_schema IndexedEvent_fields of
             Some err \<Rightarrow> d
           | None \<Rightarrow> if \<not> online d then d else foldl insert_ignore d evs)"

text \<open>
  One iteration of the \<^verbatim>\<open>select\<close> in \<^verbatim>\<open>processBatches\<close>.  Go picks one of the cases that are
  ready; the pick is an argument, and the result is \<open>None\<close> when that case is not ready
  (or the goroutine has already returned).
\<close>

datatype select_case = RecvEvent | TickerFired | FlushRequested | CtxDone

definition processBatches_step ::
  "select_case \<Rightarrow> BatchProcessor \<times> db \<Rightarrow> (BatchProcessor \<times> db) option" where
  "processBatches_step pick s =
     (let bp = fst s; d = snd s in
      if \<not> running bp then None
      else case pick of
        RecvEvent \<Rightarrow>
          (case eventsChan bp of
             [] \<Rightarrow> None
           | event # rest \<Rightarrow>
               (let evs = pending bp @ [event] in
                if batchSize bp \<le> int (length evs)
                then Some (bp\<lparr>eventsChan := rest, pending := []\<rparr>, flushBatch d evs)
                else Some (bp\<lparr>eventsChan := rest, pending := evs\<rparr>, d)))
      | TickerFired \<Rightarrow>
          (if 0 < length (pending bp)
           then Some (bp\<lparr>pending := []\<rparr>, flushBatch d (pending bp))
           else Some (bp, d))
      | FlushRequested \<Rightarrow>
          (if \<not> flushChan bp then None
           else if 0 < length (pending bp)
           then Some (bp\<lparr>flushChan := False, pending := []\<rparr>, flushBatch d (pending bp))
           else Some (bp\<lparr>flushChan := False\<rparr>, d))
      | CtxDone \<Rightarrow>
          (if \<not> cancelled bp then None
           else if 0 < length (pending bp)
           then Some (bp\<lparr>running := False\<rparr>, flushBatch d (pending bp))
           else Some (bp\<lparr>running := False\<rparr>, d)))"

fun processBatches :: "select_case list \<Rightarrow> BatchProcessor \<times> db \<Rightarrow> (BatchProcessor \<times> db) option" where
  "processBatches [] s = Some s"
| "processBatches (pick # picks) s =
     (case processBatches_step pick s of
        None \<Rightarrow> None
      | Some s' \<Rightarrow> processBatches picks s')"

text \<open>\<^verbatim>\<open>AddEvent\<close> is a \<^verbatim>\<open>select\<close> over the send and the context; the pick is an argument.\<close>

datatype add_case = SendEvent | AddCtxDone

datatype ctx_error = ContextCanceled

definition AddEvent ::
  "add_case \<Rightarrow> BatchProcessor \<Rightarrow> IndexedEvent \<Rightarrow> (ctx_error option \<times> BatchProcessor) option" where
  "AddEvent pick bp event =
     (case pick of
        SendEvent \<Rightarrow>
          (if int (length (eventsChan bp)) < batchSize bp * 10
           then Some (None, bp\<lparr>eventsChan := eventsChan bp @ [event]\<rparr>)
           else None)
      | AddCtxDone \<Rightarrow>
          (if cancelled bp then Some (Some ContextCanceled, bp) else None))"

definition Flush :: "BatchProcessor \<Rightarrow> BatchProcessor" where
  "Flush bp = bp\<lparr>flushChan := True\<rparr>"

text \<open>
  \<^verbatim>\<open>Close\<close> cancels the context and waits for the goroutine, which keeps running its
  \<^verbatim>\<open>select\<close> with the given picks until it returns.
\<close>

definition cancel :: "BatchProcessor \<Rightarrow> BatchProcessor" where
  "cancel bp = bp\<lparr>cancelled := True\<rparr>"

definition Close :: "select_case list \<Rightarrow> BatchProcessor \<times> db \<Rightarrow> (BatchProcessor \<times> db) option" where
  "Close picks s =
     (case processBatches picks (cancel (fst s), snd s) of
        None \<Rightarrow> None
      | Some s' \<Rightarrow> if running (fst s') then None else Some s')"

section \<open>The indexer service\<close>

record indexer =
  ix_db :: db
  ix_cache :: cache
  ix_batch :: BatchProcessor

record NFTTransferEvent =
  nft_BlockNumber :: int
  nft_TxHash :: string
  nft_From :: string
  nft_To :: string
  nft_TokenID :: int
  nft_Contract :: string
  nft_Timestamp :: nat

text \<open>The conversion reads the clock twice; \<open>created\<close> and \<open>updated\<close> are the two readings.\<close>

definition ConvertNFTToIndexedEvent :: "nat \<Rightarrow> nat \<Rightarrow> NFTTransferEvent \<Rightarrow> IndexedEvent" where
  "ConvertNFTToIndexedEvent created updated nftEvent =
     \<lparr>ie_ID = 0, ie_BlockNumber = nft_BlockNumber nftEvent, ie_TxHash = nft_TxHash nftEvent,
      ie_EventName = ''NFTTransfer'', ie_Contract = nft_Contract nftEvent,
      ie_From = nft_From nftEvent, ie_To = nft_To nftEvent,
      ie_TokenID = big_String (nft_TokenID nftEvent), ie_Value = [],
      ie_Timestamp = nft_Timestamp nftEvent, ie_CreatedAt = created, ie_UpdatedAt = updated\<rparr>"

definition nft_eventKey :: "NFTTransferEvent \<Rightarrow> string" where
  "nft_eventKey event =
     ''nft:'' @ nft_Contract event @ '':'' @ big_String (nft_TokenID event) @ '':'' @ nft_TxHash event"

text \<open>
  \<^verbatim>\<open>processNFTEvent\<close> runs in a goroutine of its own for every delivery.  Between two
  accesses to the shared cache, store and batch processor another goroutine may run, so
  the function is cut at those accesses: the check, the enqueue, the mark, the cache
  write.  \<open>t_created\<close> and \<open>t_updated\<close> are the two readings of \<^verbatim>\<open>time.Now()\<close> made by
  the conversion.
\<close>

datatype pc = AtIsProcessed | AtAddEvent | AtMarkProcessed | AtCacheSet | Returned

record nft_task =
  t_event :: NFTTransferEvent
  t_created :: nat
  t_updated :: nat
  t_pc :: pc

definition processNFTEvent_step ::
  "add_case \<Rightarrow> nft_task \<Rightarrow> indexer \<Rightarrow> (nft_task \<times> indexer) option" where
  "processNFTEvent_step pick t ix =
     (let event = t_event t;
          eventKey = nft_eventKey event;
          indexedEvent = ConvertNFTToIndexedEvent (t_created t) (t_updated t) event
      in case t_pc t of
        AtIsProcessed \<Rightarrow>
          (case IsProcessed (ix_cache ix) (ix_db ix) eventKey of
             (Inl err, c') \<Rightarrow> Some (t\<lparr>t_pc := AtAddEvent\<rparr>, ix\<lparr>ix_cache := c'\<rparr>)
           | (Inr processed, c') \<Rightarrow>
               if processed then Some (t\<lparr>t_pc := Returned\<rparr>, ix\<lparr>ix_cache := c'\<rparr>)
               else Some (t\<lparr>t_pc := AtAddEvent\<rparr>, ix\<lparr>ix_cache := c'\<rparr>))
      | AtAddEvent \<Rightarrow>
          (case AddEvent pick (ix_batch ix) indexedEvent of
             None \<Rightarrow> None
           | Some (Some err, bp') \<Rightarrow> Some (t\<lparr>t_pc := Returned\<rparr>, ix\<lparr>ix_batch := bp'\<rparr>)
           | Some (None, bp') \<Rightarrow> Some (t\<lparr>t_pc := AtMarkProcessed\<rparr>, ix\<lparr>ix_batch := bp'\<rparr>))
      | AtMarkProcessed \<Rightarrow>
          (case MarkProcessed (ix_cache ix) (ix_db ix) eventKey of
             (err, c', d') \<Rightarrow> Some (t\<lparr>t_pc := AtCacheSet\<rparr>, ix\<lparr>ix_cache := c', ix_db := d'\<rparr>))
      | AtCacheSet \<Rightarrow>
          (case RetryWithBackoff
                  (\<lambda>_. Cache_Set (ix_cache ix)
                          (''event:nft:'' @ ie_Contract indexedEvent @ '':'' @ ie_TokenID indexedEvent)
                          (CEvent indexedEvent)) of
             Inl err \<Rightarrow> Some (t\<lparr>t_pc := Returned\<rparr>, ix)
           | Inr c' \<Rightarrow> Some (t\<lparr>t_pc := Returned\<rparr>, ix\<lparr>ix_cache := c'\<rparr>))
      | Returned \<Rightarrow> None)"



text \<open>
  Two deliveries and the batch goroutine running side by side: a schedule says who makes
  the next access.
\<close>

datatype actor = First add_case | Second add_case | Batcher select_case

record pipeline =
  pl_first :: nft_task
  pl_second :: nft_task
  pl_ix :: indexer

definition pipeline_step :: "actor \<Rightarrow> pipeline \<Rightarrow> pipeline option" where
  "pipeline_step a pl =
     (case a of
        First pick \<Rightarrow>
          (case processNFTEvent_step pick (pl_first pl) (pl_ix pl) of
             None \<Rightarrow> None
           | Some (t', ix') \<Rightarrow> Some (pl\<lparr>pl_first := t', pl_ix := ix'\<rparr>))
      | Second pick \<Rightarrow>
          (case processNFTEvent_step pick (pl_second pl) (pl_ix pl) of
             None \<Rightarrow> None
           | Some (t', ix') \<Rightarrow> Some (pl\<lparr>pl_second := t', pl_ix := ix'\<rparr>))
      | Batcher pick \<Rightarrow>
          (case processBatches_step pick (ix_batch (pl_ix pl), ix_db (pl_ix pl)) of
             None \<Rightarrow> None
           | Some (bp', d') \<Rightarrow> Some (pl\<lparr>pl_ix := (pl_ix pl)\<lparr>ix_batch := bp', ix_db := d'\<rparr>\<rparr>)))"

fun run_pipeline :: "actor list \<Rightarrow> pipeline \<Rightarrow> pipeline option" where
  "run_pipeline [] pl = Some pl"
| "run_pipeline (a # as) pl =
     (case pipeline_step a pl of None \<Rightarrow> None | Some pl' \<Rightarrow> run_pipeline as pl')"

subsection \<open>Reading events through the cache\<close>

record EventFilter =
  ef_EventType :: string
  ef_Contract :: string
  ef_FromBlock :: "int option"
  ef_ToBlock :: "int option"
  ef_Limit :: int
  ef_Offset :: int

definition Database_GetEvents :: "db \<Rightarrow> EventFilter \<Rightarrow> db_error + IndexedEvent list" where
  "Database_GetEvents d f =
     (case parse_schema IndexedEvent_fields of
        Some err \<Rightarrow> Inl err
      | None \<Rightarrow>
      if \<not> online d then Inl ErrConnection
      else
        (let q1 = (if ef_Contract f \<noteq> [] then filter (\<lambda>e. ie_Contract e = ef_Contract f) (events d)
                   else events d);
             q2 = (if ef_EventType f \<noteq> [] then filter (\<lambda>e. ie_EventName e = ef_EventType f) q1
                   else q1);
             q3 = (case ef_FromBlock f of
                     None \<Rightarrow> q2 | Some b \<Rightarrow> filter (\<lambda>e. b \<le> ie_BlockNumber e) q2);
             q4 = (case ef_ToBlock f of
                     None \<Rightarrow> q3 | Some b \<Rightarrow> filter (\<lambda>e. ie_BlockNumber e \<le> b) q3);
             ordered = sort_key (\<lambda>e. - ie_BlockNumber e)
                         (sort_key (\<lambda>e. - int (ie_CreatedAt e)) q4);
             skipped = (if 0 < ef_Offset f then drop (nat (ef_Offset f)) ordered else ordered)
         in Inr (if 0 < ef_Limit f then take (nat (ef_Limit f)) skipped else skipped)))"

definition GetEvents_cacheKey :: "EventFilter \<Rightarrow> string" where
  "GetEvents_cacheKey f =
     ''events:'' @ ef_EventType f @ '':'' @ ef_Contract f @ '':'' @ fmt_big (ef_FromBlock f)"

text \<open>
  \<^verbatim>\<open>GetEvents\<close>.  After a miss the cache is filled by a goroutine that nobody waits for;
  \<open>filled\<close> says whether that write has happened when the resulting state is observed.
\<close>

definition GetEvents ::
  "bool \<Rightarrow> indexer \<Rightarrow> EventFilter \<Rightarrow> (db_error + IndexedEvent list) \<times> indexer" where
  "GetEvents filled ix f =
     (let cacheKey = GetEvents_cacheKey f in
      case RetryWithBackoff (\<lambda>_. Cache_Get_events (ix_cache ix) cacheKey) of
        Inr cachedEvents \<Rightarrow> (Inr cachedEvents, ix)
      | Inl _ \<Rightarrow>
          (case RetryWithBackoff (\<lambda>_. Database_GetEvents (ix_db ix) f) of
             Inl err \<Rightarrow> (Inl err, ix)
           | Inr evs \<Rightarrow>
               if 0 < length evs \<and> filled then
                 (case RetryWithBackoff (\<lambda>_. Cache_Set (ix_cache ix) cacheKey (CEvents evs)) of
                    Inl _ \<Rightarrow> (Inr evs, ix)
                  | Inr c' \<Rightarrow> (Inr evs, ix\<lparr>ix_cache := c'\<rparr>))
               else (Inr evs, ix)))"

section \<open>Example states\<close>

definition ex_event :: "nat \<Rightarrow> int \<Rightarrow> IndexedEvent" where
  "ex_event i b =
     \<lparr>ie_ID = i, ie_BlockNumber = b, ie_TxHash = ''0x01'', ie_EventName = ''NFTTransfer'',
      ie_Contract = ''0xc0'', ie_From = [], ie_To = [], ie_TokenID = ''7'', ie_Value = [],
      ie_Timestamp = 0, ie_CreatedAt = 0, ie_UpdatedAt = 0\<rparr>"


definition empty_db :: db where
  "empty_db =
     \<lparr>online = True, events = [], last_processed_blocks = [], processed_events = [],
      next_id = 1, clock = 0\<rparr>"

text \<open>The store after one event has been marked processed.\<close>

definition ex_marker :: ProcessedEvent where
  "ex_marker = \<lparr>pe_ID = 1, pe_EventKey = ''nft:0xc0:7:0x01'', pe_Processed = True, pe_Timestamp = 0\<rparr>"

definition marked_db :: db where
  "marked_db = empty_db\<lparr>processed_events := [ex_marker], next_id := 2\<rparr>"














definition filter_a :: EventFilter where
  "filter_a =
     \<lparr>ef_EventType = ''NFTTransfer'', ef_Contract = ''0xc0'', ef_FromBlock = Some 100,
      ef_ToBlock = Some 120, ef_Limit = 10, ef_Offset = 0\<rparr>"

definition filter_b :: EventFilter where
  "filter_b =
     \<lparr>ef_EventType = ''NFTTransfer'', ef_Contract = ''0xc0'', ef_FromBlock = Some 100,
      ef_ToBlock = None, ef_Limit = 1, ef_Offset = 5\<rparr>"

definition ix_cached :: indexer where
  "ix_cached =
     \<lparr>ix_db = empty_db,
      ix_cache = \<lparr>cache_up = True,
                  entries = [(''events:NFTTransfer:0xc0:100'', CEvents [ex_event 1 150])]\<rparr>,
      ix_batch = NewBatchProcessor 5\<rparr>"




definition bp_queued :: BatchProcessor where
  "bp_queued = (NewBatchProcessor 5)\<lparr>eventsChan := [ex_event 0 42]\<rparr>"

definition bp_closed :: BatchProcessor where
  "bp_closed = bp_queued\<lparr>cancelled := True, running := False\<rparr>"

definition ex_nft :: NFTTransferEvent where
  "ex_nft =
     \<lparr>nft_BlockNumber = 42, nft_TxHash = ''0x01'', nft_From = ''0xf0'', nft_To = ''0xf1'',
      nft_TokenID = 7, nft_Contract = ''0xc0'', nft_Timestamp = 3\<rparr>"

definition race_start :: pipeline where
  "race_start =
     \<lparr>pl_first = \<lparr>t_event = ex_nft, t_created = 5, t_updated = 5, t_pc = AtIsProcessed\<rparr>,
      pl_second = \<lparr>t_event = ex_nft, t_created = 6, t_updated = 7, t_pc = AtIsProcessed\<rparr>,
      pl_ix = \<lparr>ix_db = empty_db, ix_cache = \<lparr>cache_up = True, entries = []\<rparr>,
               ix_batch = NewBatchProcessor 5\<rparr>\<rparr>"


definition serial_schedule :: "actor list" where
  "serial_schedule =
     [First SendEvent, First SendEvent, First SendEvent, First SendEvent,
      Second SendEvent, Batcher RecvEvent, Batcher TickerFired]"

definition logical_key :: "IndexedEvent \<Rightarrow> string \<times> string \<times> string" where
  "logical_key e = (ie_Contract e, ie_TokenID e, ie_TxHash e)"

text \<open>What a run has left: the batch still pending, the event rows and the marker keys.\<close>

definition durable_rows ::
  "pipeline \<Rightarrow> (string \<times> string \<times> string) list \<times> (string \<times> string \<times> string) list \<times> string list" where
  "durable_rows pl =
     (map logical_key (pending (ix_batch (pl_ix pl)) @ eventsChan (ix_batch (pl_ix pl))),
      map logical_key (events (ix_db (pl_ix pl))),
      map pe_EventKey (processed_events (ix_db (pl_ix pl))))"

definition task_states :: "pipeline \<Rightarrow> pc \<times> pc" where
  "task_states pl = (t_pc (pl_first pl), t_pc (pl_second pl))"




section \<open>Verified properties\<close>

subsection \<open>What gorm makes of the three models\<close>

lemma parse_IndexedEvent: "parse_schema IndexedEvent_fields = Some (ErrInvalidField ''BlockNumber'')"
  by (simp add: parse_schema_def IndexedEvent_fields_def)

lemma parse_LastProcessedBlock:
  "parse_schema LastProcessedBlock_fields = Some (ErrInvalidField ''BlockNumber'')"
  by (simp add: parse_schema_def LastProcessedBlock_fields_def)

lemma parse_ProcessedEvent: "parse_schema ProcessedEvent_fields = None"
  by (simp add: parse_schema_def ProcessedEvent_fields_def)




lemma UpdateLastProcessedBlockWithHash_fails:
  "UpdateLastProcessedBlockWithHash d n h = (Some (ErrInvalidField ''BlockNumber''), d)"
  by (simp add: UpdateLastProcessedBlockWithHash_def parse_LastProcessedBlock)

lemma DeleteEventsFromBlock_fails:
  "DeleteEventsFromBlock d n = (Some (ErrInvalidField ''BlockNumber''), d)"
  by (simp add: DeleteEventsFromBlock_def parse_IndexedEvent)


lemma Database_GetEvents_fails: "Database_GetEvents d f = Inl (ErrInvalidField ''BlockNumber'')"
  by (simp add: Database_GetEvents_def parse_IndexedEvent)

subsection \<open>Reorg handling\<close>

lemma DeleteProcessedEventsFromBlock_fails:
  "DeleteProcessedEventsFromBlock d n =
     (Some (if online d then ErrUndefinedColumn ''block_number'' else ErrConnection), d)"
  by (simp add: DeleteProcessedEventsFromBlock_def delete_where_ge_def ProcessedEvent_columns_def)

lemma rollbackToBlock_fails:
  "rollbackToBlock d n = (Some (FailedToDeleteEvents n (ErrInvalidField ''BlockNumber'')), d)"
  by (simp add: rollbackToBlock_def DeleteEventsFromBlock_fails)

text \<open>
  Claim C4.  The marker rows carry no block number: \<^verbatim>\<open>ProcessedEvent\<close> has the columns
  \<^verbatim>\<open>id\<close>, \<^verbatim>\<open>event_key\<close>, \<^verbatim>\<open>processed\<close> and \<^verbatim>\<open>timestamp\<close> only.  The statement that
  \<^verbatim>\<open>DeleteProcessedEventsFromBlock\<close> issues filters on \<^verbatim>\<open>block_number\<close>, so it is rejected:
  for every store and every block, \<^verbatim>\<open>rollbackToBlock\<close> returns an error and the marker
  table is what it was before, and so does \<^verbatim>\<open>DeleteProcessedEventsFromBlock\<close> called on
  its own.  No marker of a rolled-back block is ever deleted.
\<close>

theorem rollback_keeps_every_marker:
  "fst (rollbackToBlock d n) \<noteq> None \<and> processed_events (snd (rollbackToBlock d n)) = processed_events d \<and>
   fst (DeleteProcessedEventsFromBlock d n) \<noteq> None \<and>
   processed_events (snd (DeleteProcessedEventsFromBlock d n)) = processed_events d"
  by (simp add: rollbackToBlock_fails DeleteProcessedEventsFromBlock_fails)


lemma safeBlock_of_max: "safeBlock_of depth h = max 0 (h - depth)"
  by (simp add: safeBlock_of_def Let_def max_def)

lemma marked_db_is_marked:
  "MarkEventAsProcessed empty_db ''nft:0xc0:7:0x01'' = (None, marked_db)"
  by (simp add: MarkEventAsProcessed_def empty_db_def marked_db_def ex_marker_def)



subsection \<open>Reading the checkpoint\<close>

lemma GetLastProcessedBlock_cached:
  "lastBlock rs = Some b \<Longrightarrow> GetLastProcessedBlock rs = (Inr b, rs)"
  by (simp add: GetLastProcessedBlock_def)



subsection \<open>Replay\<close>




subsection \<open>The monitoring loop\<close>




subsection \<open>The cache key of \<^verbatim>\<open>GetEvents\<close>\<close>

lemma retry_loop_same: "retry_loop k (\<lambda>_. r) = r"
  by (induction k) (auto split: sum.splits)

lemma RetryWithBackoff_same: "RetryWithBackoff (\<lambda>_. r) = r"
  by (simp add: RetryWithBackoff_def retry_loop_same)

text \<open>
  Claim C10.  The cache key of \<^verbatim>\<open>GetEvents\<close> is built from \<^verbatim>\<open>EventType\<close>, \<^verbatim>\<open>Contract\<close> and
  \<^verbatim>\<open>FromBlock\<close> alone: changing \<^verbatim>\<open>ToBlock\<close>, \<^verbatim>\<open>Limit\<close> and \<^verbatim>\<open>Offset\<close> leaves it as it is.
  Hence two filters that agree on the three fields have the same key, and on a cache hit
  both calls return the stored list, whatever their other three fields are.
\<close>

theorem cache_key_ignores_paging:
  assumes "ef_EventType f1 = ef_EventType f2"
    and "ef_Contract f1 = ef_Contract f2"
    and "ef_FromBlock f1 = ef_FromBlock f2"
  shows "GetEvents_cacheKey (f1\<lparr>ef_ToBlock := t, ef_Limit := l, ef_Offset := off\<rparr>) = GetEvents_cacheKey f1 \<and>
         GetEvents_cacheKey f1 = GetEvents_cacheKey f2 \<and>
         (Cache_Get_events (ix_cache ix) (GetEvents_cacheKey f1) = Inr evs \<longrightarrow>
            GetEvents p1 ix f1 = (Inr evs, ix) \<and> GetEvents p2 ix f2 = (Inr evs, ix))"
proof -
  have k: "GetEvents_cacheKey f1 = GetEvents_cacheKey f2"
    using assms by (simp add: GetEvents_cacheKey_def)
  have hit: "GetEvents p ix f = (Inr evs, ix)"
    if "Cache_Get_events (ix_cache ix) (GetEvents_cacheKey f) = Inr evs" for p f
    using that by (simp add: GetEvents_def RetryWithBackoff_same)
  show ?thesis
    using k hit [of f1 p1] hit [of f2 p2] by (simp add: GetEvents_cacheKey_def)
qed

theorem cache_key_ignores_paging_witness:
  "GetEvents_cacheKey filter_a = ''events:NFTTransfer:0xc0:100'' \<and>
   GetEvents_cacheKey filter_b = ''events:NFTTransfer:0xc0:100'' \<and>
   GetEvents True ix_cached filter_a = (Inr [ex_event 1 150], ix_cached) \<and>
   GetEvents False ix_cached filter_b = (Inr [ex_event 1 150], ix_cached)"
proof -
  have d: "nat_to_dec 100 = ''100''"
    by (simp add: nat_to_dec.simps digit_char_def)
  have ka: "GetEvents_cacheKey filter_a = ''events:NFTTransfer:0xc0:100''"
    by (simp add: GetEvents_cacheKey_def filter_a_def fmt_big_def big_String_def d)
  have g: "Cache_Get_events (ix_cache ix_cached) (GetEvents_cacheKey filter_a) = Inr [ex_event 1 150]"
    by (simp add: ka) (simp add: Cache_Get_events_def Cache_Get_def ix_cached_def)
  from cache_key_ignores_paging [where ?f1.0 = filter_a and ?f2.0 = filter_b and ix = ix_cached
         and evs = "[ex_event 1 150]" and ?p1.0 = True and ?p2.0 = False and t = None and l = 0 and off = 0] g ka
  show ?thesis
    by (simp add: filter_a_def filter_b_def)
qed

subsection \<open>The batch processor\<close>

lemma recv_until_full:
  assumes "running bp" and "eventsChan bp = es @ rest" and "es \<noteq> []"
    and "int (length (pending bp) + length es) = batchSize bp"
  shows "processBatches (replicate (length es) RecvEvent) (bp, d) =
           Some (bp\<lparr>eventsChan := rest, pending := []\<rparr>, flushBatch d (pending bp @ es))"
  using assms
proof (induction es arbitrary: bp)
  case Nil
  then show ?case by simp
next
  case (Cons e es)
  show ?case
  proof (cases "es = []")
    case True
    with Cons.prems show ?thesis
      by (simp add: processBatches_step_def Let_def)
  next
    case False
    let ?bp' = "bp\<lparr>eventsChan := es @ rest, pending := pending bp @ [e]\<rparr>"
    from False have l: "1 \<le> int (length es)" by (cases es) simp_all
    from Cons.prems(4) have p: "int (length (pending bp)) + 1 + int (length es) = batchSize bp"
      by simp
    from l p have "\<not> batchSize bp \<le> int (length (pending bp)) + 1" by linarith
    with Cons.prems have step: "processBatches_step RecvEvent (bp, d) = Some (?bp', d)"
      by (simp add: processBatches_step_def Let_def)
    have "processBatches (replicate (length es) RecvEvent) (?bp', d) =
            Some (?bp'\<lparr>eventsChan := rest, pending := []\<rparr>, flushBatch d (pending ?bp' @ es))"
      using Cons.prems False by (intro Cons.IH) simp_all
    with step show ?thesis by simp
  qed
qed

lemma recv_reaching_batch_size:
  assumes "running bp" and "eventsChan bp = e # rest"
    and "batchSize bp \<le> int (length (pending bp)) + 1"
  shows "processBatches_step RecvEvent (bp, d) =
           Some (bp\<lparr>eventsChan := rest, pending := []\<rparr>, flushBatch d (pending bp @ [e]))"
  using assms by (simp add: processBatches_step_def Let_def)

lemma tick_with_pending:
  assumes "running bp" and "pending bp \<noteq> []"
  shows "processBatches_step TickerFired (bp, d) =
           Some (bp\<lparr>pending := []\<rparr>, flushBatch d (pending bp))"
  using assms by (simp add: processBatches_step_def Let_def)


lemma returned_goroutine_is_stuck:
  "\<not> running bp \<Longrightarrow> processBatches_step pick (bp, d) = None"
  by (simp add: processBatches_step_def)

text \<open>
  Claim C6.  A processor of batch size 5 accepts an event, which sits in the intake
  channel.  \<^verbatim>\<open>Close\<close> then cancels the context; the \<^verbatim>\<open>select\<close> of the goroutine may pick the
  \<^verbatim>\<open>ctx.Done()\<close> case, which flushes only the pending slice (empty here) and returns.  The
  accepted event is still in the channel, the store has received nothing, and a call of
  \<^verbatim>\<open>AddEvent\<close> after the shutdown may pick the send and return no error.
\<close>

theorem close_loses_queued_events:
  "AddEvent SendEvent (NewBatchProcessor 5) (ex_event 0 42) = Some (None, bp_queued) \<and>
   Close [CtxDone] (bp_queued, empty_db) = Some (bp_closed, empty_db) \<and>
   running bp_closed = False \<and>
   eventsChan bp_closed = [ex_event 0 42] \<and>
   events empty_db = [] \<and>
   AddEvent SendEvent bp_closed (ex_event 0 43) =
     Some (None, bp_closed\<lparr>eventsChan := [ex_event 0 42, ex_event 0 43]\<rparr>)"
  by (simp add: AddEvent_def NewBatchProcessor_def bp_queued_def bp_closed_def Close_def cancel_def
        processBatches_step_def empty_db_def)

subsection \<open>Two deliveries of one event\<close>

lemma serial_deliveries_store_no_row:
  "map_option task_states (run_pipeline serial_schedule race_start) = Some (Returned, Returned) \<and>
   map_option durable_rows (run_pipeline serial_schedule race_start) =
     Some ([], [], [''nft:0xc0:7:0x01''])"
  by code_simp


end
